theory Spec2Isabelle
  imports Main "HOL-Library.Char_ord" "HOL-Library.List_Lexorder"
begin

section \<open>Candidate generator: the data model\<close>

text \<open>
  A \<open>std::string\<close> is a sequence of bytes, here a \<^typ>\<open>string\<close> (a list of 8-bit
  \<^typ>\<open>char\<close>). \<open>std::string\<close>'s \<open>operator<\<close> compares the bytes as unsigned values,
  position by position, a proper prefix being smaller: this is the order that
  \<open>Char_ord\<close> (on \<^typ>\<open>char\<close>, through \<^const>\<open>of_char\<close>) and \<open>List_Lexorder\<close> (on lists)
  give to \<^typ>\<open>string\<close>.
\<close>

subsection \<open>Library functions of \<open>cctype\<close> in the "C" locale\<close>

text \<open>
  The program never calls \<open>setlocale\<close>, so it runs in the "C" locale, where the printable
  characters are the bytes \<open>0x20\<close> (space) to \<open>0x7E\<close> and \<open>toupper\<close> maps \<open>a\<close>..\<open>z\<close> to
  \<open>A\<close>..\<open>Z\<close> and leaves every other value unchanged.
\<close>

definition isprint :: "char \<Rightarrow> bool" where
  "isprint c \<longleftrightarrow> 32 \<le> (of_char c :: nat) \<and> (of_char c :: nat) \<le> 126"

definition toupper :: "char \<Rightarrow> char" where
  "toupper c =
     (if 97 \<le> (of_char c :: nat) \<and> (of_char c :: nat) \<le> 122
      then char_of ((of_char c :: nat) - 32) else c)"

subsection \<open>\<open>is_printable\<close>\<close>

text \<open>\<open>std::all_of\<close> over the bytes of the string, each read as \<open>unsigned char\<close>.\<close>

definition is_printable :: "string \<Rightarrow> bool" where
  "is_printable s = list_all isprint s"

text \<open>
  The test every caller makes before it uses a word: \<open>main\<close> admits a word under
  \<open>is_printable(w) && !w.empty()\<close>, and the loops of the generators skip it under the
  negation, \<open>!is_printable(w) || w.empty()\<close>.
\<close>

definition usable :: "string \<Rightarrow> bool" where
  "usable w \<longleftrightarrow> is_printable w \<and> w \<noteq> []"

subsection \<open>The candidate collection: \<open>std::set<std::string>\<close>\<close>

text \<open>
  The set is represented by the sequence its iterators traverse, from \<open>begin()\<close> to
  \<open>end()\<close>. \<open>insert\<close> walks to the place of the new key and leaves the set as it is
  when an equal key is met.
\<close>

fun set_insert :: "string \<Rightarrow> string list \<Rightarrow> string list" where
  "set_insert x [] = [x]"
| "set_insert x (y # ys) =
     (if x = y then y # ys
      else if x < y then x # y # ys
      else y # set_insert x ys)"

text \<open>A sequence of \<open>insert\<close> calls, in program order.\<close>

definition insert_each :: "string list \<Rightarrow> string list \<Rightarrow> string list" where
  "insert_each xs candidates = foldl (\<lambda>C x. set_insert x C) candidates xs"

text \<open>Consecutive elements are strictly increasing.\<close>

fun strictly_increasing :: "string list \<Rightarrow> bool" where
  "strictly_increasing [] = True"
| "strictly_increasing [x] = True"
| "strictly_increasing (x # y # ys) = (x < y \<and> strictly_increasing (y # ys))"

section \<open>Generation strategies\<close>

subsection \<open>\<open>generate_target_combinations\<close>\<close>

definition common_suffixes :: "string list" where
  "common_suffixes = [''2023'', ''2024'', ''2025'', ''!'', ''1'', ''123'', ''#'']"

text \<open>
  \<open>std::string cap = w; if (!cap.empty()) cap[0] = std::toupper(cap[0]);\<close>
\<close>

definition capitalize :: "string \<Rightarrow> string" where
  "capitalize w = (case w of [] \<Rightarrow> [] | c # cs \<Rightarrow> toupper c # cs)"

text \<open>
  The body of the innermost loop (one suffix, for a given base word and info word): the
  twelve strings it inserts, in program order. The capitalized copies are computed inside
  this loop.
\<close>

definition suffix_inserts :: "string \<Rightarrow> string \<Rightarrow> string \<Rightarrow> string list" where
  "suffix_inserts base info suffix =
     (let cap_info = capitalize info;
          cap_base = capitalize base
      in [base @ info @ suffix,
          info @ base @ suffix,
          base @ suffix @ info,
          info @ suffix @ base,
          cap_base @ cap_info,
          cap_info @ cap_base,
          cap_base @ info,
          info @ cap_base,
          cap_base @ cap_info @ suffix,
          cap_info @ cap_base @ suffix,
          cap_base @ info @ suffix,
          info @ cap_base @ suffix])"

definition suffix_step :: "string \<Rightarrow> string \<Rightarrow> string list \<Rightarrow> string \<Rightarrow> string list" where
  "suffix_step base info candidates suffix =
     insert_each (suffix_inserts base info suffix) candidates"

text \<open>The body of the loop over the target info (one info word, for a given base word).\<close>

definition info_step :: "string \<Rightarrow> string list \<Rightarrow> string \<Rightarrow> string list" where
  "info_step base candidates info =
     (if \<not> is_printable info \<or> info = [] then candidates
      else foldl (suffix_step base info)
             (insert_each [base @ info, info @ base] candidates) common_suffixes)"

text \<open>The body of the second suffix loop: the base word with a suffix alone.\<close>

definition base_suffix_step :: "string \<Rightarrow> string list \<Rightarrow> string \<Rightarrow> string list" where
  "base_suffix_step base candidates suffix =
     (let cap_base = capitalize base
      in insert_each [base @ suffix, cap_base @ suffix] candidates)"

text \<open>The body of the outer loop (one base word).\<close>

definition base_step :: "string list \<Rightarrow> string list \<Rightarrow> string \<Rightarrow> string list" where
  "base_step target_info candidates base =
     (if \<not> is_printable base \<or> base = [] then candidates
      else foldl (base_suffix_step base)
             (foldl (info_step base) (set_insert base candidates) target_info)
             common_suffixes)"

definition generate_target_combinations ::
    "string list \<Rightarrow> string list \<Rightarrow> string list \<Rightarrow> string list" where
  "generate_target_combinations base_words target_info candidates =
     foldl (base_step target_info) candidates base_words"

subsection \<open>\<open>apply_leetspeak\<close>\<close>

text \<open>\<open>std::replace\<close> over the whole string.\<close>

definition replace_char :: "char \<Rightarrow> char \<Rightarrow> string \<Rightarrow> string" where
  "replace_char old new s = map (\<lambda>c. if c = old then new else c) s"

text \<open>The twelve \<open>std::replace\<close> calls on the copy of the word, in program order.\<close>

definition leet_word :: "string \<Rightarrow> string" where
  "leet_word word =
     (replace_char CHR ''T'' CHR ''7''
     (replace_char CHR ''t'' CHR ''7''
     (replace_char CHR ''I'' CHR ''1''
     (replace_char CHR ''i'' CHR ''1''
     (replace_char CHR ''S'' CHR ''$''
     (replace_char CHR ''s'' CHR ''$''
     (replace_char CHR ''O'' CHR ''0''
     (replace_char CHR ''o'' CHR ''0''
     (replace_char CHR ''A'' CHR ''@''
     (replace_char CHR ''a'' CHR ''@''
     (replace_char CHR ''E'' CHR ''3''
     (replace_char CHR ''e'' CHR ''3'' word))))))))))))"

text \<open>The body of the loop over the input words.\<close>

definition leet_step :: "string list \<Rightarrow> string \<Rightarrow> string list" where
  "leet_step candidates word =
     (if \<not> is_printable word \<or> word = [] then candidates
      else let candidates1 = set_insert word candidates;
               lw = leet_word word
           in if lw \<noteq> word then set_insert lw candidates1 else candidates1)"

definition apply_leetspeak :: "string list \<Rightarrow> string list \<Rightarrow> string list" where
  "apply_leetspeak input_words candidates = foldl leet_step candidates input_words"

section \<open>\<open>main\<close>\<close>

text \<open>Step 1 of \<open>main\<close>: the printable, non-empty base words enter the empty set.\<close>

definition init_candidates :: "string list \<Rightarrow> string list" where
  "init_candidates base_words =
     foldl (\<lambda>C word. if is_printable word \<and> word \<noteq> [] then set_insert word C else C)
       [] base_words"

text \<open>
  Step 2 of \<open>main\<close>: the combination generator runs only under the guard
  \<open>if (!target_info.empty())\<close>.
\<close>

definition combined_candidates :: "string list \<Rightarrow> string list \<Rightarrow> string list" where
  "combined_candidates base_words target_info =
     (let generated_candidates = init_candidates base_words
      in if target_info \<noteq> []
         then generate_target_combinations base_words target_info generated_candidates
         else generated_candidates)"

text \<open>
  Step 3 of \<open>main\<close>: the set is copied into \<open>current_candidates_vec\<close> (in iteration order) and
  \<open>apply_leetspeak\<close> runs over that copy, inserting into the set. The result is the set that
  the output loop prints, one candidate per line.
\<close>

definition generated_candidates :: "string list \<Rightarrow> string list \<Rightarrow> string list" where
  "generated_candidates base_words target_info =
     (let candidates = combined_candidates base_words target_info;
          current_candidates_vec = candidates
      in apply_leetspeak current_candidates_vec candidates)"

text \<open>
  \<open>main\<close> after the two files have been loaded into \<open>base_words\<close> and \<open>target_info\<close>
  (an absent target-info file gives the empty list): exit status 1 and nothing on standard
  output when the base word list is empty, otherwise exit status 0 and the lines printed.
\<close>

datatype main_result = Exit_Failure | Exit_Success "string list"

definition main_run :: "string list \<Rightarrow> string list \<Rightarrow> main_result" where
  "main_run base_words target_info =
     (if base_words = [] then Exit_Failure
      else Exit_Success (generated_candidates base_words target_info))"

section \<open>The strings a call inserts, in program order\<close>

text \<open>
  Each generator only ever calls \<open>insert\<close> on the set, so a call is described by the
  sequence of strings it inserts. These sequences are derived from the loops above; the
  lemmas below prove that inserting them one by one is what the loops compute.
\<close>

definition info_inserts :: "string \<Rightarrow> string \<Rightarrow> string list" where
  "info_inserts base info =
     (if usable info
      then [base @ info, info @ base] @ concat (map (suffix_inserts base info) common_suffixes)
      else [])"

definition base_inserts :: "string list \<Rightarrow> string \<Rightarrow> string list" where
  "base_inserts target_info base =
     (if usable base
      then [base] @ concat (map (info_inserts base) target_info)
           @ concat (map (\<lambda>suffix. [base @ suffix, capitalize base @ suffix]) common_suffixes)
      else [])"

definition combination_inserts :: "string list \<Rightarrow> string list \<Rightarrow> string list" where
  "combination_inserts base_words target_info = concat (map (base_inserts target_info) base_words)"

definition leet_inserts :: "string list \<Rightarrow> string list" where
  "leet_inserts input_words =
     concat (map (\<lambda>word. if usable word
                          then (if leet_word word \<noteq> word then [word, leet_word word] else [word])
                          else []) input_words)"

text \<open>
  The substitution table as the specification words it: \<open>e/E\<close> to \<open>3\<close>, \<open>a/A\<close> to \<open>@\<close>,
  \<open>o/O\<close> to \<open>0\<close>, \<open>s/S\<close> to \<open>$\<close>, \<open>i/I\<close> to \<open>1\<close>, \<open>t/T\<close> to \<open>7\<close>, every other character
  unchanged, applied to each character of the string once.
\<close>

definition leet_table :: "char \<Rightarrow> char" where
  "leet_table c =
     (if c = CHR ''e'' \<or> c = CHR ''E'' then CHR ''3''
      else if c = CHR ''a'' \<or> c = CHR ''A'' then CHR ''@''
      else if c = CHR ''o'' \<or> c = CHR ''O'' then CHR ''0''
      else if c = CHR ''s'' \<or> c = CHR ''S'' then CHR ''$''
      else if c = CHR ''i'' \<or> c = CHR ''I'' then CHR ''1''
      else if c = CHR ''t'' \<or> c = CHR ''T'' then CHR ''7''
      else c)"

definition single_pass_leet :: "string \<Rightarrow> string" where
  "single_pass_leet w = map leet_table w"

section \<open>Inserting into the set\<close>

lemma set_set_insert: "set (set_insert x xs) = insert x (set xs)"
  by (induction xs) auto

lemma set_insert_each: "set (insert_each xs C) = set xs \<union> set C"
  unfolding insert_each_def
  by (induction xs arbitrary: C) (auto simp: set_set_insert)

lemma strictly_increasing_sorted_wrt: "strictly_increasing xs \<longleftrightarrow> sorted_wrt (<) xs"
  by (induction xs rule: strictly_increasing.induct) (auto intro: order.strict_trans)

lemma strictly_increasing_set_insert:
  "strictly_increasing xs \<Longrightarrow> strictly_increasing (set_insert x xs)"
  unfolding strictly_increasing_sorted_wrt
  by (induction xs) (auto simp: set_set_insert)

lemma set_insert_member:
  "strictly_increasing xs \<Longrightarrow> x \<in> set xs \<Longrightarrow> set_insert x xs = xs"
  unfolding strictly_increasing_sorted_wrt
  by (induction xs) auto

lemma strictly_increasing_insert_each:
  "strictly_increasing C \<Longrightarrow> strictly_increasing (insert_each xs C)"
  unfolding insert_each_def
  by (induction xs arbitrary: C) (auto simp: strictly_increasing_set_insert)

lemma insert_each_Nil: "insert_each [] C = C"
  by (simp add: insert_each_def)

lemma insert_each_Cons: "insert_each (x # xs) C = insert_each xs (set_insert x C)"
  by (simp add: insert_each_def)

lemma insert_each_append: "insert_each (xs @ ys) C = insert_each ys (insert_each xs C)"
  by (simp add: insert_each_def)

lemma foldl_insert_each:
  "foldl (\<lambda>C x. insert_each (g x) C) C xs = insert_each (concat (map g xs)) C"
  by (induction xs arbitrary: C) (simp_all add: insert_each_Nil insert_each_append)

lemma foldl_cong_step:
  assumes "\<And>C x. f C x = insert_each (g x) C"
  shows "foldl f C xs = insert_each (concat (map g xs)) C"
proof -
  have "f = (\<lambda>C x. insert_each (g x) C)" using assms by (intro ext)
  then show ?thesis by (simp add: foldl_insert_each)
qed

lemma info_step_inserts: "info_step base C info = insert_each (info_inserts base info) C"
proof (cases "usable info")
  case True
  have "foldl (suffix_step base info) D common_suffixes
        = insert_each (concat (map (suffix_inserts base info) common_suffixes)) D" for D
    by (rule foldl_cong_step) (simp add: suffix_step_def)
  with True show ?thesis
    by (simp add: info_step_def info_inserts_def usable_def insert_each_append
        insert_each_Cons insert_each_Nil)
next
  case False
  then show ?thesis
    by (auto simp: info_step_def info_inserts_def usable_def insert_each_Nil)
qed

lemma base_suffix_step_inserts:
  "base_suffix_step base C suffix = insert_each [base @ suffix, capitalize base @ suffix] C"
  by (simp add: base_suffix_step_def Let_def)

lemma base_step_inserts: "base_step T C base = insert_each (base_inserts T base) C"
proof (cases "usable base")
  case True
  have 1: "foldl (info_step base) D T = insert_each (concat (map (info_inserts base) T)) D" for D
    by (rule foldl_cong_step) (rule info_step_inserts)
  have 2: "foldl (base_suffix_step base) D common_suffixes
        = insert_each (concat (map (\<lambda>suffix. [base @ suffix, capitalize base @ suffix])
            common_suffixes)) D" for D
    by (rule foldl_cong_step) (rule base_suffix_step_inserts)
  from True show ?thesis
    by (simp add: base_step_def base_inserts_def usable_def 1 2 insert_each_append
        insert_each_Cons insert_each_Nil)
next
  case False
  then show ?thesis
    by (auto simp: base_step_def base_inserts_def usable_def insert_each_Nil)
qed

lemma generate_target_combinations_inserts:
  "generate_target_combinations B T C = insert_each (combination_inserts B T) C"
  unfolding generate_target_combinations_def combination_inserts_def
  by (rule foldl_cong_step) (rule base_step_inserts)

lemma leet_step_inserts:
  "leet_step C word = insert_each (if usable word
                          then (if leet_word word \<noteq> word then [word, leet_word word] else [word])
                          else []) C"
  by (simp add: leet_step_def usable_def Let_def insert_each_Nil insert_each_Cons)

lemma apply_leetspeak_inserts:
  "apply_leetspeak W C = insert_each (leet_inserts W) C"
  unfolding apply_leetspeak_def leet_inserts_def
  by (rule foldl_cong_step) (rule leet_step_inserts)

lemma init_candidates_inserts: "init_candidates B = insert_each (filter usable B) []"
proof -
  have "foldl (\<lambda>C word. if is_printable word \<and> word \<noteq> [] then set_insert word C else C) C B
        = insert_each (concat (map (\<lambda>w. if usable w then [w] else []) B)) C" for C
    by (rule foldl_cong_step) (simp add: usable_def insert_each_Nil insert_each_Cons)
  moreover have "concat (map (\<lambda>w. if usable w then [w] else []) B) = filter usable B"
    by (induction B) auto
  ultimately show ?thesis by (simp add: init_candidates_def)
qed

section \<open>The order invariant of the collection\<close>

lemma strictly_increasing_init: "strictly_increasing (init_candidates B)"
  by (simp add: init_candidates_inserts strictly_increasing_insert_each)

lemma strictly_increasing_combined: "strictly_increasing (combined_candidates B T)"
  by (simp add: combined_candidates_def Let_def generate_target_combinations_inserts
      strictly_increasing_insert_each strictly_increasing_init)

lemma strictly_increasing_generated: "strictly_increasing (generated_candidates B T)"
  by (simp add: generated_candidates_def Let_def apply_leetspeak_inserts
      strictly_increasing_insert_each strictly_increasing_combined)

lemma strictly_increasing_distinct: "strictly_increasing xs \<Longrightarrow> distinct xs"
  by (simp add: strictly_increasing_sorted_wrt strict_sorted_iff)

section \<open>The substitution, character by character\<close>

lemma leet_word_Nil: "leet_word [] = []"
  by (simp add: leet_word_def replace_char_def)

lemma leet_word_Cons: "leet_word (c # w) = leet_table c # leet_word w"
proof -
  consider "c = CHR ''e''" | "c = CHR ''E''" | "c = CHR ''a''" | "c = CHR ''A''"
    | "c = CHR ''o''" | "c = CHR ''O''" | "c = CHR ''s''" | "c = CHR ''S''"
    | "c = CHR ''i''" | "c = CHR ''I''" | "c = CHR ''t''" | "c = CHR ''T''"
    | "c \<notin> set ''eEaAoOsSiItT''"
    by auto
  then show ?thesis
    by cases (simp_all add: leet_word_def replace_char_def leet_table_def)
qed

lemma leet_word_map: "leet_word w = map leet_table w"
  by (induction w) (simp_all add: leet_word_Nil leet_word_Cons)

lemma leet_table_cases: "leet_table c = c \<or> leet_table c \<in> set ''3@0$17''"
  by (simp add: leet_table_def)

lemma leet_images_fixed: "list_all (\<lambda>d. leet_table d = d) ''3@0$17''"
  by code_simp

lemma leet_images_printable: "list_all isprint ''3@0$17''"
  by code_simp

lemma leet_table_idem: "leet_table (leet_table c) = leet_table c"
proof -
  have fixed: "leet_table d = d" if "d \<in> set ''3@0$17''" for d
    using leet_images_fixed that unfolding list_all_iff by (rule bspec)
  from leet_table_cases [of c] show ?thesis
  proof
    assume "leet_table c = c"
    then show ?thesis by (simp only:)
  next
    assume "leet_table c \<in> set ''3@0$17''"
    then show ?thesis by (rule fixed)
  qed
qed

lemma isprint_leet_table: "isprint c \<Longrightarrow> isprint (leet_table c)"
proof -
  assume c: "isprint c"
  have printable: "isprint d" if "d \<in> set ''3@0$17''" for d
    using leet_images_printable that unfolding list_all_iff by (rule bspec)
  from leet_table_cases [of c] show ?thesis
  proof
    assume "leet_table c = c"
    with c show ?thesis by (simp only:)
  next
    assume "leet_table c \<in> set ''3@0$17''"
    then show ?thesis by (rule printable)
  qed
qed

lemma leet_word_idem: "leet_word (leet_word w) = leet_word w"
  by (simp add: leet_word_map leet_table_idem)

lemma usable_leet_word: "usable v \<Longrightarrow> usable (leet_word v)"
  by (simp add: usable_def leet_word_map is_printable_def list_all_iff isprint_leet_table)

lemma set_apply_leetspeak:
  "set (apply_leetspeak W C) = set C \<union> {w \<in> set W. usable w} \<union> leet_word ` {w \<in> set W. usable w}"
  by (auto simp: apply_leetspeak_inserts set_insert_each leet_inserts_def split: if_splits)

lemma is_printable_iff:
  "is_printable s \<longleftrightarrow> (\<forall>c\<in>set s. 32 \<le> (of_char c :: nat) \<and> (of_char c :: nat) \<le> 126)"
  by (simp add: is_printable_def isprint_def list_all_iff)

section \<open>The members of the collection after each step\<close>

lemma set_generate_target_combinations:
  "set (generate_target_combinations B T C) = set C \<union> set (combination_inserts B T)"
  by (auto simp: generate_target_combinations_inserts set_insert_each)

lemma set_init_candidates: "set (init_candidates B) = set (filter usable B)"
  by (simp add: init_candidates_inserts set_insert_each)

lemma set_combined_candidates:
  "set (combined_candidates B T) =
     set (filter usable B) \<union> (if T \<noteq> [] then set (combination_inserts B T) else {})"
  by (auto simp: combined_candidates_def Let_def set_generate_target_combinations
      set_init_candidates)

lemma set_generated_candidates:
  "set (generated_candidates B T) =
     set (combined_candidates B T) \<union> leet_word ` {w \<in> set (combined_candidates B T). usable w}"
  by (auto simp: generated_candidates_def Let_def set_apply_leetspeak)

lemma combination_inserts_generated:
  "T \<noteq> [] \<Longrightarrow> set (combination_inserts B T) \<subseteq> set (generated_candidates B T)"
  by (auto simp: set_generated_candidates set_combined_candidates)

lemma base_inserts_member:
  assumes "b \<in> set B" "usable b" "w \<in> set (base_inserts T b)"
  shows "w \<in> set (combination_inserts B T)"
  using assms by (auto simp: combination_inserts_def)

lemma info_inserts_member:
  assumes "usable b" "t \<in> set T" "w \<in> set (info_inserts b t)"
  shows "w \<in> set (base_inserts T b)"
  using assms by (auto simp: base_inserts_def)

lemma suffix_inserts_member:
  assumes "usable t" "x \<in> set common_suffixes" "w \<in> set (suffix_inserts b t x)"
  shows "w \<in> set (info_inserts b t)"
  using assms by (auto simp: info_inserts_def)

lemma base_suffix_member:
  assumes "usable b" "x \<in> set common_suffixes"
  shows "b @ x \<in> set (base_inserts T b)" "capitalize b @ x \<in> set (base_inserts T b)"
  using assms by (auto simp: base_inserts_def)

lemma base_self_member: "usable b \<Longrightarrow> b \<in> set (base_inserts T b)"
  by (simp add: base_inserts_def)

lemma info_plain_member:
  "usable t \<Longrightarrow> b @ t \<in> set (info_inserts b t) \<and> t @ b \<in> set (info_inserts b t)"
  by (simp add: info_inserts_def)

lemma combination_forms_inserted:
  assumes b: "b \<in> set B" "usable b" and t: "t \<in> set T" "usable t"
    and x: "x \<in> set common_suffixes"
  shows "set ([b, b @ t, t @ b, b @ x, capitalize b @ x] @ suffix_inserts b t x)
         \<subseteq> set (combination_inserts B T)"
proof -
  have "set (suffix_inserts b t x) \<subseteq> set (combination_inserts B T)"
    using b t x
    by (meson base_inserts_member info_inserts_member suffix_inserts_member subsetI)
  moreover have "b \<in> set (combination_inserts B T)"
    using b base_self_member base_inserts_member by blast
  moreover have "b @ t \<in> set (combination_inserts B T)" "t @ b \<in> set (combination_inserts B T)"
    using b t info_plain_member info_inserts_member base_inserts_member by blast+
  moreover have "b @ x \<in> set (combination_inserts B T)"
    "capitalize b @ x \<in> set (combination_inserts B T)"
    using b x base_suffix_member base_inserts_member by blast+
  ultimately show ?thesis by simp
qed

section \<open>Every inserted string is printable and non-empty\<close>

lemma isprint_toupper: "isprint c \<Longrightarrow> isprint (toupper c)"
  by (auto simp: isprint_def toupper_def)

lemma usable_capitalize: "usable w \<Longrightarrow> usable (capitalize w)"
  by (cases w) (auto simp: usable_def is_printable_def capitalize_def isprint_toupper)

lemma usable_append: "usable a \<Longrightarrow> usable b \<Longrightarrow> usable (a @ b)"
  by (simp add: usable_def is_printable_def)

lemma usable_suffixes: "list_all usable common_suffixes"
  by code_simp

lemma usable_suffix: "x \<in> set common_suffixes \<Longrightarrow> usable x"
  using usable_suffixes by (simp add: list_all_iff)

lemma usable_suffix_inserts:
  assumes "usable b" "usable t" "usable x" "w \<in> set (suffix_inserts b t x)"
  shows "usable w"
  using assms usable_capitalize [of b] usable_capitalize [of t]
  by (auto simp: suffix_inserts_def Let_def intro!: usable_append)

lemma usable_info_inserts:
  assumes "usable b" "w \<in> set (info_inserts b t)"
  shows "usable w"
  using assms
  by (auto simp: info_inserts_def usable_append split: if_splits
      dest: usable_suffix_inserts usable_suffix)

lemma usable_base_inserts:
  assumes "w \<in> set (base_inserts T b)"
  shows "usable w"
  using assms
  by (auto simp: base_inserts_def usable_append usable_capitalize usable_suffix split: if_splits
      dest: usable_info_inserts)

lemma usable_combination_inserts: "w \<in> set (combination_inserts B T) \<Longrightarrow> usable w"
  by (auto simp: combination_inserts_def dest: usable_base_inserts)

lemma usable_leet_inserts: "w \<in> set (leet_inserts W) \<Longrightarrow> usable w"
  by (auto simp: leet_inserts_def usable_leet_word split: if_splits)

lemma concat_map_filter_skip:
  assumes "\<And>x. \<not> P x \<Longrightarrow> f x = []"
  shows "concat (map f (filter P xs)) = concat (map f xs)"
  by (induction xs) (simp_all add: assms)

lemma base_inserts_filter: "base_inserts (filter usable T) b = base_inserts T b"
proof -
  have "concat (map (info_inserts b) (filter usable T)) = concat (map (info_inserts b) T)"
    by (rule concat_map_filter_skip) (simp add: info_inserts_def)
  then show ?thesis by (simp add: base_inserts_def)
qed

lemma base_inserts_filter_fun: "base_inserts (filter usable T) = base_inserts T"
  by (rule ext) (rule base_inserts_filter)

lemma combination_inserts_filter:
  "combination_inserts (filter usable B) (filter usable T) = combination_inserts B T"
proof -
  have "concat (map (base_inserts T) (filter usable B)) = concat (map (base_inserts T) B)"
    by (rule concat_map_filter_skip) (simp add: base_inserts_def)
  then show ?thesis by (simp add: combination_inserts_def base_inserts_filter_fun)
qed

lemma leet_inserts_filter: "leet_inserts (filter usable W) = leet_inserts W"
  unfolding leet_inserts_def by (rule concat_map_filter_skip) simp

section \<open>The words of the examples\<close>

lemma leet_table_not_a: "leet_table c \<noteq> CHR ''a''"
  by (simp add: leet_table_def)

lemma leet_word_no_a: "CHR ''a'' \<notin> set (leet_word w)"
  using leet_table_not_a by (auto simp: leet_word_map) metis

lemma capitalize_blue: "capitalize ''blue'' = ''Blue''"
  by code_simp

lemma capitalize_acme: "capitalize ''acme'' = ''Acme''"
  by code_simp

lemma usable_blue: "usable ''blue''"
  by code_simp

lemma usable_acme: "usable ''acme''"
  by code_simp

lemma suffix_2024: "''2024'' \<in> set common_suffixes"
  by (simp add: common_suffixes_def)

section \<open>The claims\<close>

text \<open>
  C1. The sequence \<open>main\<close> prints is strictly increasing in the byte-wise lexicographic order
  (each element is smaller than the next one), and therefore holds no string twice; this holds
  for every base-word list and every target-info list.
\<close>

theorem generated_candidates_ordered:
  "strictly_increasing (generated_candidates B T) \<and> distinct (generated_candidates B T)"
  by (simp add: strictly_increasing_generated strictly_increasing_distinct)

text \<open>
  C2 as stated fails for the info word on its own: with base words \<open>blue\<close> and target info
  \<open>acme\<close>, the string \<open>acme\<close> is not in the final collection. Only base words are inserted
  alone; an info word enters only inside a combination.
\<close>

theorem info_word_alone_counterexample:
  "''acme'' \<notin> set (generated_candidates [''blue''] [''acme''])"
proof -
  have 1: "''acme'' \<notin> set (combination_inserts [''blue''] [''acme''])"
    by code_simp
  have 2: "''acme'' \<notin> set (filter usable [''blue''])"
    by simp
  have 3: "''acme'' \<noteq> leet_word w" for w
    using leet_word_no_a [of w] by (metis list.set_intros(1))
  show ?thesis
    unfolding set_generated_candidates set_combined_candidates using 1 2 3 by auto
qed

text \<open>
  C2, amended. For every printable, non-empty base word \<open>b\<close> of \<open>B\<close>, every printable,
  non-empty info word \<open>t\<close> of \<open>T\<close> and every suffix \<open>x\<close>, the final collection contains \<open>b\<close>,
  \<open>b+t\<close>, \<open>t+b\<close>, \<open>b+t+x\<close>, \<open>t+b+x\<close>, \<open>b+x+t\<close>, \<open>t+x+b\<close>, the four capitalization
  variants \<open>Cap(b)+Cap(t)\<close>, \<open>Cap(t)+Cap(b)\<close>, \<open>Cap(b)+t\<close>, \<open>t+Cap(b)\<close>, these four followed
  by \<open>x\<close>, and \<open>b+x\<close> and \<open>Cap(b)+x\<close>. In the example (\<open>B\<close> is \<open>blue\<close>, \<open>T\<close> is \<open>acme\<close>) it
  contains \<open>blue\<close>, \<open>blueacme\<close>, \<open>acmeblue\<close>, \<open>blueacme2024\<close>, \<open>acmeblue2024\<close>, \<open>Blueacme\<close>,
  \<open>acmeBlue\<close>, \<open>BlueAcme\<close>, \<open>AcmeBlue\<close>, \<open>blue2024\<close> and \<open>Blue2024\<close>; the info word \<open>acme\<close>
  alone is not among the promised members.
\<close>

theorem combination_completeness:
  "(b \<in> set B \<and> usable b \<and> t \<in> set T \<and> usable t \<and> x \<in> set common_suffixes \<longrightarrow>
      set [b, b @ t, t @ b, b @ t @ x, t @ b @ x, b @ x @ t, t @ x @ b,
           capitalize b @ capitalize t, capitalize t @ capitalize b,
           capitalize b @ t, t @ capitalize b,
           capitalize b @ capitalize t @ x, capitalize t @ capitalize b @ x,
           capitalize b @ t @ x, t @ capitalize b @ x,
           b @ x, capitalize b @ x]
      \<subseteq> set (generated_candidates B T)) \<and>
   set [''blue'', ''blueacme'', ''acmeblue'', ''blueacme2024'', ''acmeblue2024'',
        ''Blueacme'', ''acmeBlue'', ''BlueAcme'', ''AcmeBlue'', ''blue2024'', ''Blue2024'']
     \<subseteq> set (generated_candidates [''blue''] [''acme''])"
proof -
  have general: "set ([b, b @ t, t @ b, b @ x, capitalize b @ x] @ suffix_inserts b t x)
      \<subseteq> set (generated_candidates B T)"
    if "b \<in> set B" "usable b" "t \<in> set T" "usable t" "x \<in> set common_suffixes"
    for b t x B T
  proof -
    from that(3) have "T \<noteq> []" by auto
    then show ?thesis
      using combination_forms_inserted [OF that] combination_inserts_generated [of T B]
      by (rule_tac order_trans)
  qed
  have "set ([''blue'', ''blue'' @ ''acme'', ''acme'' @ ''blue'', ''blue'' @ ''2024'',
          capitalize ''blue'' @ ''2024''] @ suffix_inserts ''blue'' ''acme'' ''2024'')
      \<subseteq> set (generated_candidates [''blue''] [''acme''])"
    by (rule general) (simp_all add: usable_blue usable_acme suffix_2024)
  then have example: "set [''blue'', ''blueacme'', ''acmeblue'', ''blueacme2024'',
        ''acmeblue2024'', ''Blueacme'', ''acmeBlue'', ''BlueAcme'', ''AcmeBlue'', ''blue2024'',
        ''Blue2024''] \<subseteq> set (generated_candidates [''blue''] [''acme''])"
    by (simp add: suffix_inserts_def Let_def capitalize_blue capitalize_acme)
  show ?thesis
    using general [of b B t T x] example
    by (simp add: suffix_inserts_def Let_def)
qed

theorem combination_completeness_witness:
  "''blue'' \<in> set [''blue''] \<and> usable ''blue'' \<and> ''acme'' \<in> set [''acme''] \<and> usable ''acme'' \<and>
   ''2024'' \<in> set common_suffixes \<and>
   set [''blue'', ''blueacme'', ''acmeblue'', ''blueacme2024'', ''acmeblue2024'',
        ''blue2024acme'', ''acme2024blue'', ''BlueAcme'', ''AcmeBlue'', ''Blueacme'', ''acmeBlue'',
        ''BlueAcme2024'', ''AcmeBlue2024'', ''Blueacme2024'', ''acmeBlue2024'',
        ''blue2024'', ''Blue2024'']
     \<subseteq> set (generated_candidates [''blue''] [''acme''])"
  using combination_completeness [of "''blue''" "[''blue'']" "''acme''" "[''acme'']" "''2024''"]
  by (simp add: usable_blue usable_acme suffix_2024 capitalize_blue capitalize_acme)

text \<open>
  C3 as stated fails: \<open>main\<close> calls the combination generator only when the target-info
  list is non-empty, so with base word \<open>blue\<close> and no target info the final collection does
  not contain \<open>blue2024\<close>.
\<close>

theorem empty_target_info_counterexample:
  "usable ''blue'' \<and> ''2024'' \<in> set common_suffixes \<and>
   ''blue'' @ ''2024'' \<notin> set (generated_candidates [''blue''] [])"
proof -
  have "generated_candidates [''blue''] [] = [''blu3'', ''blue'']"
    by code_simp
  then show ?thesis
    by (simp add: usable_blue suffix_2024)
qed

text \<open>
  C3, amended. When \<open>T\<close> is empty, \<open>main\<close> skips the combination step, and the final
  collection consists of the printable, non-empty base words and their leetspeak variants.
  The combination generator itself, when it is called with an empty \<open>T\<close>, does insert \<open>b\<close>,
  \<open>b+x\<close> and \<open>Cap(b)+x\<close> for every printable, non-empty base word \<open>b\<close> of \<open>B\<close> and every
  suffix \<open>x\<close>.
\<close>

theorem empty_target_info:
  "set (generated_candidates B []) = set (filter usable B) \<union> leet_word ` set (filter usable B) \<and>
   (b \<in> set B \<and> usable b \<and> x \<in> set common_suffixes \<longrightarrow>
      set [b, b @ x, capitalize b @ x] \<subseteq> set (generate_target_combinations B [] C))"
proof -
  have "set (generated_candidates B []) = set (filter usable B) \<union> leet_word ` set (filter usable B)"
    by (auto simp: set_generated_candidates set_combined_candidates)
  moreover have "set [b, b @ x, capitalize b @ x] \<subseteq> set (generate_target_combinations B [] C)"
    if "b \<in> set B" "usable b" "x \<in> set common_suffixes"
    using that base_self_member [of b "[]"] base_suffix_member [of b x "[]"]
      base_inserts_member [of b B _ "[]"]
    by (simp add: set_generate_target_combinations)
  ultimately show ?thesis by blast
qed

theorem empty_target_info_witness:
  "''blue'' \<in> set [''blue''] \<and> usable ''blue'' \<and> ''2024'' \<in> set common_suffixes \<and>
   set [''blue'', ''blue2024'', ''Blue2024''] \<subseteq> set (generate_target_combinations [''blue''] [] []) \<and>
   set (generated_candidates [''blue''] []) = {''blu3'', ''blue''}"
proof -
  have "leet_word ''blue'' = ''blu3''" by code_simp
  then show ?thesis
    using empty_target_info [of "[''blue'']" "''blue''" "''2024''" "[]"]
    by (simp add: usable_blue suffix_2024 capitalize_blue)
qed

text \<open>
  C4. The twelve successive \<open>std::replace\<close> calls compute the same string as one pass that
  applies the substitution table to each character: \<open>e/E\<close> becomes \<open>3\<close>, \<open>a/A\<close> becomes \<open>@\<close>,
  \<open>o/O\<close> becomes \<open>0\<close>, \<open>s/S\<close> becomes \<open>$\<close>, \<open>i/I\<close> becomes \<open>1\<close>, \<open>t/T\<close> becomes \<open>7\<close>, and every
  other character stays. For the input word \<open>Secret\<close> the pass leaves the collection with
  \<open>Secret\<close> and the one new member \<open>$3cr37\<close>.
\<close>

theorem leet_word_single_pass:
  "leet_word w = single_pass_leet w \<and>
   set (apply_leetspeak [''Secret''] C) = set C \<union> {''Secret'', ''$3cr37''} \<and>
   apply_leetspeak [''Secret''] [''Secret''] = [''$3cr37'', ''Secret'']"
proof -
  have 1: "leet_word ''Secret'' = ''$3cr37''" by code_simp
  have 2: "usable ''Secret''" by code_simp
  have 3: "apply_leetspeak [''Secret''] [''Secret''] = [''$3cr37'', ''Secret'']" by code_simp
  have 4: "set (apply_leetspeak [''Secret''] C) = set C \<union> {''Secret'', ''$3cr37''}"
    unfolding set_apply_leetspeak using 1 2 by auto
  show ?thesis
    using 3 4 by (simp add: leet_word_map single_pass_leet_def)
qed

text \<open>
  C5. The substitution is idempotent on strings, and a second run of the transformer over the
  collection it has produced (its own output included) adds no string.
\<close>

theorem leet_word_idempotent:
  "leet_word (leet_word w) = leet_word w \<and>
   set (apply_leetspeak (apply_leetspeak C C) (apply_leetspeak C C)) = set (apply_leetspeak C C)"
  by (auto simp: leet_word_idem set_apply_leetspeak usable_leet_word)

text \<open>
  C7. When the transformer runs over a snapshot \<open>S\<close> of the collection (the input words are
  the contents of the collection at the call), the collection afterwards has at most twice
  as many elements as \<open>S\<close>.
\<close>

theorem leetspeak_size_bound:
  assumes "strictly_increasing S"
  shows "length (apply_leetspeak S S) \<le> 2 * length S"
proof -
  let ?R = "apply_leetspeak S S"
  have "strictly_increasing ?R"
    using assms by (simp add: apply_leetspeak_inserts strictly_increasing_insert_each)
  then have "length ?R = card (set ?R)"
    by (simp add: strictly_increasing_distinct distinct_card)
  also have "set ?R \<subseteq> set S \<union> leet_word ` set S"
    by (auto simp: set_apply_leetspeak)
  then have "card (set ?R) \<le> card (set S \<union> leet_word ` set S)"
    by (simp add: card_mono)
  also have "\<dots> \<le> card (set S) + card (leet_word ` set S)"
    by (rule card_Un_le)
  also have "\<dots> \<le> card (set S) + card (set S)"
    by (simp add: card_image_le)
  also have "\<dots> \<le> 2 * length S"
    using card_length [of S] by simp
  finally show ?thesis .
qed

theorem leetspeak_size_bound_witness:
  "strictly_increasing [''Secret'', ''abc'', ''xyz''] \<and>
   length (apply_leetspeak [''Secret'', ''abc'', ''xyz''] [''Secret'', ''abc'', ''xyz''])
     \<le> 2 * length [''Secret'', ''abc'', ''xyz'']"
proof -
  have "strictly_increasing [''Secret'', ''abc'', ''xyz'']"
    by code_simp
  then show ?thesis
    using leetspeak_size_bound [of "[''Secret'', ''abc'', ''xyz'']"] by simp
qed

text \<open>
  C8 as stated fails at the empty string: \<open>std::all_of\<close> over an empty range is true, so
  \<open>is_printable\<close> accepts it.
\<close>

theorem is_printable_empty_counterexample: "is_printable [] \<noteq> False"
  by (simp add: is_printable_def)

text \<open>
  C8, amended. \<open>is_printable\<close> is true for the empty string, and in general true exactly when
  every byte of the string lies in the printable range \<open>0x20\<close>..\<open>0x7E\<close> (space included, control
  characters and high bytes excluded). The test the callers apply, \<open>is_printable\<close> together
  with non-emptiness, is true exactly for the non-empty strings made of printable bytes only.
\<close>

theorem is_printable_characterisation:
  "is_printable [] \<and>
   (is_printable s \<longleftrightarrow> (\<forall>c\<in>set s. 32 \<le> (of_char c :: nat) \<and> (of_char c :: nat) \<le> 126)) \<and>
   (usable s \<longleftrightarrow> s \<noteq> [] \<and> (\<forall>c\<in>set s. 32 \<le> (of_char c :: nat) \<and> (of_char c :: nat) \<le> 126))"
  using is_printable_iff [of s] by (auto simp: usable_def is_printable_def)

theorem is_printable_characterisation_witness:
  "is_printable ''a b'' \<and> usable ''a b'' \<and>
   \<not> is_printable [CHR ''a'', CHR 0x07] \<and> \<not> usable [CHR 0xFF] \<and> \<not> usable []"
  using is_printable_characterisation [of "''a b''"]
    is_printable_characterisation [of "[CHR ''a'', CHR 0x07]"]
    is_printable_characterisation [of "[CHR 0xFF]"]
    is_printable_characterisation [of "[]"]
  by simp

text \<open>
  C9. Both generators only insert: whatever the set holds before a call to
  \<open>generate_target_combinations\<close> or \<open>apply_leetspeak\<close>, and whatever the input lists are, every
  member before the call is a member after it.
\<close>

theorem generators_only_insert:
  "set C \<subseteq> set (generate_target_combinations B T C) \<and> set C \<subseteq> set (apply_leetspeak W C)"
  by (simp add: generate_target_combinations_inserts apply_leetspeak_inserts set_insert_each)

text \<open>
  C10. Each generator, and the first loop of \<open>main\<close>, skips the empty and the non-printable
  words of its input lists: the result is the one computed from the lists with these words
  removed (so they produce no combination and no substitution variant), and such a word is in
  the collection after the call only if it was there before. The functions are total: no
  input makes them fail.
\<close>

theorem unusable_words_skipped:
  "generate_target_combinations B T C
     = generate_target_combinations (filter usable B) (filter usable T) C \<and>
   apply_leetspeak W C = apply_leetspeak (filter usable W) C \<and>
   init_candidates B = init_candidates (filter usable B) \<and>
   (\<not> usable w \<longrightarrow>
      (w \<in> set (generate_target_combinations B T C) \<longleftrightarrow> w \<in> set C) \<and>
      (w \<in> set (apply_leetspeak W C) \<longleftrightarrow> w \<in> set C) \<and>
      w \<notin> set (init_candidates B))"
proof -
  have "\<not> usable w \<Longrightarrow> w \<notin> set (combination_inserts B T)"
    using usable_combination_inserts by blast
  moreover have "\<not> usable w \<Longrightarrow> w \<notin> set (leet_inserts W)"
    using usable_leet_inserts by blast
  ultimately show ?thesis
    by (auto simp: generate_target_combinations_inserts apply_leetspeak_inserts
        init_candidates_inserts combination_inserts_filter leet_inserts_filter set_insert_each)
qed

theorem unusable_words_skipped_witness:
  "\<not> usable [CHR 0x07] \<and> \<not> usable [] \<and>
   generate_target_combinations [[], ''a'', [CHR 0x07]] [[CHR 0x07], []] []
     = generate_target_combinations [''a''] [] [] \<and>
   [CHR 0x07] \<notin> set (generate_target_combinations [[], ''a'', [CHR 0x07]] [[CHR 0x07], []] []) \<and>
   [CHR 0x07] \<notin> set (apply_leetspeak [[], ''a'', [CHR 0x07]] []) \<and>
   [CHR 0x07] \<notin> set (init_candidates [[], ''a'', [CHR 0x07]])"
proof -
  have 1: "\<not> usable [CHR 0x07]" "\<not> usable []" "usable ''a''"
    by code_simp+
  have 2: "filter usable [[], ''a'', [CHR 0x07]] = [''a'']" "filter usable [[CHR 0x07], []] = []"
    using 1 by simp_all
  note inst = unusable_words_skipped [of "[[], ''a'', [CHR 0x07]]" "[[CHR 0x07], []]" "[]"
        "[[], ''a'', [CHR 0x07]]" "[CHR 0x07]", unfolded 2]
  have 3: "[CHR 0x07] \<notin> set ([] :: string list)"
    by simp
  from 1 3 inst show ?thesis by blast
qed

end
